theory Spec2Isabelle
  imports Main "HOL-Library.AList"
begin

section \<open>Ad-hoc table ingestion: a shallow embedding of the TypeScript services\<close>

text \<open>
  The development follows the source files of the ad-hoc table feature:
  the warehouse helpers (\<^verbatim>\<open>PostgresAdhocTableHelper\<close>, \<^verbatim>\<open>BigQueryAdhocTableHelper\<close>,
  \<^verbatim>\<open>RedshiftAdhocTableHelper\<close>), \<^verbatim>\<open>FileParserService\<close>, \<^verbatim>\<open>AdhocTableExploreService\<close>,
  \<^verbatim>\<open>AdhocTablePermissionService\<close>, \<^verbatim>\<open>AdhocTableCatalogService\<close> and \<^verbatim>\<open>AdhocTableService\<close>.

  A JavaScript string is modelled as a \<^typ>\<open>string\<close>: one \<^typ>\<open>char\<close> stands for one
  UTF-16 code unit with a code below 256. All patterns of the source only name ASCII
  characters, so a code unit outside that range behaves like any other character that
  is neither a letter, a digit nor an underscore.
\<close>

subsection \<open>Characters\<close>

definition isUpperAZ :: "char \<Rightarrow> bool" where
  "isUpperAZ c = (65 \<le> (of_char c :: nat) \<and> (of_char c :: nat) \<le> 90)"

definition isLowerAZ :: "char \<Rightarrow> bool" where
  "isLowerAZ c = (97 \<le> (of_char c :: nat) \<and> (of_char c :: nat) \<le> 122)"

text \<open>The regular expression class \<^verbatim>\<open>\d\<close> (and \<^verbatim>\<open>0-9\<close>).\<close>

definition isDigit :: "char \<Rightarrow> bool" where
  "isDigit c = (48 \<le> (of_char c :: nat) \<and> (of_char c :: nat) \<le> 57)"

text \<open>The class \<^verbatim>\<open>[a-zA-Z_]\<close>.\<close>

definition isLetterOrUnderscore :: "char \<Rightarrow> bool" where
  "isLetterOrUnderscore c = (isLowerAZ c \<or> isUpperAZ c \<or> c = CHR ''_'')"

text \<open>The class \<^verbatim>\<open>[a-zA-Z0-9_]\<close>.\<close>

definition isWordChar :: "char \<Rightarrow> bool" where
  "isWordChar c = (isLowerAZ c \<or> isUpperAZ c \<or> isDigit c \<or> c = CHR ''_'')"

text \<open>The class \<^verbatim>\<open>[a-z0-9_]\<close>.\<close>

definition isLowerWordChar :: "char \<Rightarrow> bool" where
  "isLowerWordChar c = (isLowerAZ c \<or> isDigit c \<or> c = CHR ''_'')"

text \<open>
  \<^verbatim>\<open>String.prototype.toLowerCase\<close>, on the ASCII letters: the code of an upper case
  letter has the bit of value 32 clear, and setting it adds 32, which gives the lower
  case letter. The other code units below 256 that it would change are mapped to code
  units that are again outside ASCII, so they never become equal to a character of a
  pattern; they are left as they are.
\<close>

definition lowerChar :: "char \<Rightarrow> char" where
  "lowerChar c =
     (if isUpperAZ c
      then (case c of Char b0 b1 b2 b3 b4 b5 b6 b7 \<Rightarrow> Char b0 b1 b2 b3 b4 True b6 b7)
      else c)"

definition toLowerCase :: "string \<Rightarrow> string" where
  "toLowerCase s = map lowerChar s"

text \<open>
  \<^verbatim>\<open>String.prototype.trim\<close>: the white space and line terminator code units below 256
  are TAB, LF, VT, FF, CR, SPACE and NBSP.
\<close>

definition isWhiteSpace :: "char \<Rightarrow> bool" where
  "isWhiteSpace c = ((of_char c :: nat) \<in> {9, 10, 11, 12, 13, 32, 160})"

definition trim :: "string \<Rightarrow> string" where
  "trim s = rev (dropWhile isWhiteSpace (rev (dropWhile isWhiteSpace s)))"

subsection \<open>Identifier sanitizers\<close>

text \<open>\<^verbatim>\<open>.replace(/[^a-zA-Z0-9_]/g, '_')\<close>\<close>

definition replaceNonWord :: "string \<Rightarrow> string" where
  "replaceNonWord s = map (\<lambda>c. if isWordChar c then c else CHR ''_'') s"

text \<open>\<^verbatim>\<open>.replace(/[^a-z0-9_]/g, '_')\<close>\<close>

definition replaceNonLowerWord :: "string \<Rightarrow> string" where
  "replaceNonLowerWord s = map (\<lambda>c. if isLowerWordChar c then c else CHR ''_'') s"

text \<open>\<^verbatim>\<open>.replace(/^[^a-zA-Z_]/, '_')\<close>: only the first character can match.\<close>

definition replaceBadFirst :: "string \<Rightarrow> string" where
  "replaceBadFirst s =
     (case s of [] \<Rightarrow> []
      | c # cs \<Rightarrow> if isLetterOrUnderscore c then c # cs else CHR ''_'' # cs)"

text \<open>\<^verbatim>\<open>.replace(/^_+|_+$/g, '')\<close>: the leading and the trailing run of underscores.\<close>

definition stripUnderscores :: "string \<Rightarrow> string" where
  "stripUnderscores s =
     rev (dropWhile (\<lambda>c. c = CHR ''_'') (rev (dropWhile (\<lambda>c. c = CHR ''_'') s)))"

text \<open>\<^verbatim>\<open>.replace(/_+/g, '_')\<close>: every run of underscores becomes one underscore.\<close>

fun collapseUnderscores :: "string \<Rightarrow> string" where
  "collapseUnderscores [] = []"
| "collapseUnderscores [c] = [c]"
| "collapseUnderscores (c # d # cs) =
     (if c = CHR ''_'' \<and> d = CHR ''_'' then collapseUnderscores (d # cs)
      else c # collapseUnderscores (d # cs))"

text \<open>
  \<^verbatim>\<open>sanitizeColumnName\<close> of the warehouse helpers. The three helpers under
  \<^verbatim>\<open>src/\<close> have the same body and differ in the argument of the final
  \<^verbatim>\<open>substring(0, limit)\<close> only, which is the parameter \<open>limit\<close> here.
\<close>

definition sanitizeColumnName :: "nat \<Rightarrow> string \<Rightarrow> string" where
  "sanitizeColumnName limit name =
     (let sanitized = replaceBadFirst (replaceNonWord name);
          sanitized = stripUnderscores sanitized;
          sanitized = (if sanitized = [] then ''column'' else sanitized)
      in take limit sanitized)"

definition postgresSanitizeColumnName :: "string \<Rightarrow> string" where
  "postgresSanitizeColumnName = sanitizeColumnName 63"

definition bigQuerySanitizeColumnName :: "string \<Rightarrow> string" where
  "bigQuerySanitizeColumnName = sanitizeColumnName 128"

definition redshiftSanitizeColumnName :: "string \<Rightarrow> string" where
  "redshiftSanitizeColumnName = sanitizeColumnName 127"

text \<open>\<^verbatim>\<open>sanitizeTableName\<close> of the Postgres and Redshift helpers calls \<^verbatim>\<open>sanitizeColumnName\<close>.\<close>

definition postgresSanitizeTableName :: "string \<Rightarrow> string" where
  "postgresSanitizeTableName name = postgresSanitizeColumnName name"

text \<open>
  \<^verbatim>\<open>AdhocTableExploreService.sanitizeFieldName\<close>. The argument \<open>uuid\<close> is the value
  that \<^verbatim>\<open>uuidv4()\<close> returns if the routine asks for one.
\<close>

definition sanitizeFieldName :: "string \<Rightarrow> string \<Rightarrow> string" where
  "sanitizeFieldName uuid columnName =
     (let sanitized =
            stripUnderscores (collapseUnderscores (replaceNonLowerWord (toLowerCase columnName)));
          sanitized = (case sanitized of [] \<Rightarrow> sanitized
                       | c # cs \<Rightarrow> if isDigit c then CHR ''_'' # sanitized else sanitized);
          sanitized = (if sanitized = [] then ''column_'' @ take 8 uuid else sanitized)
      in sanitized)"

subsection \<open>Errors\<close>

text \<open>
  The services throw \<^verbatim>\<open>new Error(message)\<close> and the \<^verbatim>\<open>NotFoundError\<close> and
  \<^verbatim>\<open>ForbiddenError\<close> classes of the common package; no other error class is
  constructed anywhere in the sources. \<open>errorName\<close> is the name of the class of the
  thrown value.
\<close>

datatype error = Error string | NotFoundError string | ForbiddenError string

fun errorName :: "error \<Rightarrow> string" where
  "errorName (Error m) = ''Error''"
| "errorName (NotFoundError m) = ''NotFoundError''"
| "errorName (ForbiddenError m) = ''ForbiddenError''"

fun errorMessage :: "error \<Rightarrow> string" where
  "errorMessage (Error m) = m"
| "errorMessage (NotFoundError m) = m"
| "errorMessage (ForbiddenError m) = m"

subsection \<open>FileParserService\<close>

text \<open>
  A parsed row is a JavaScript object from header to cell. It is modelled as the list
  of its entries in the order in which \<^verbatim>\<open>Object.keys\<close> enumerates them; \<open>map_of\<close>
  reads a cell, and \<open>None\<close> stands for \<^verbatim>\<open>undefined\<close> and \<^verbatim>\<open>null\<close>. A cell holds the
  text that \<^verbatim>\<open>String(value)\<close> yields (the CSV parser is run without dynamic typing, so
  its cells are strings already).
\<close>

type_synonym row = "(string \<times> string) list"

definition objectKeys :: "row \<Rightarrow> string list" where
  "objectKeys r = map fst r"

datatype columnType = TString | TNumber | TDate | TBoolean

fun columnTypeName :: "columnType \<Rightarrow> string" where
  "columnTypeName TString = ''string''"
| "columnTypeName TNumber = ''number''"
| "columnTypeName TDate = ''date''"
| "columnTypeName TBoolean = ''boolean''"

record ColumnInference =
  col_name :: string
  col_type :: columnType
  col_displayType :: string
  col_nullable :: bool
  col_sampleValues :: "string list"

text \<open>The six literals of the boolean check of \<^verbatim>\<open>detectColumnType\<close>.\<close>

definition isBooleanLiteral :: "string \<Rightarrow> bool" where
  "isBooleanLiteral strValue =
     (strValue = ''true'' \<or> strValue = ''false'' \<or> strValue = ''1'' \<or>
      strValue = ''0'' \<or> strValue = ''yes'' \<or> strValue = ''no'')"

text \<open>
  \<^verbatim>\<open>!isNaN(Number(strValue))\<close>: \<^verbatim>\<open>Number\<close> of a string is \<^verbatim>\<open>NaN\<close> exactly when the
  string, with surrounding white space removed, is neither empty nor a
  \<^verbatim>\<open>StrNumericLiteral\<close> of the language specification: an optionally signed decimal
  literal (\<^verbatim>\<open>Infinity\<close>, digits with an optional fraction and exponent) or an unsigned
  binary, octal or hexadecimal integer literal.
\<close>

definition dropSign :: "string \<Rightarrow> string" where
  "dropSign s = (case s of [] \<Rightarrow> []
                 | c # cs \<Rightarrow> if c = CHR ''+'' \<or> c = CHR ''-'' then cs else c # cs)"

definition isExponentPartOpt :: "string \<Rightarrow> bool" where
  "isExponentPartOpt s =
     (case s of [] \<Rightarrow> True
      | c # cs \<Rightarrow> (c = CHR ''e'' \<or> c = CHR ''E'') \<and>
                  (let ds = dropSign cs in ds \<noteq> [] \<and> list_all isDigit ds))"

definition isStrUnsignedDecimalLiteral :: "string \<Rightarrow> bool" where
  "isStrUnsignedDecimalLiteral s =
     (s = ''Infinity'' \<or>
      (let intPart = takeWhile isDigit s; rest = dropWhile isDigit s
       in case rest of
            [] \<Rightarrow> intPart \<noteq> []
          | c # cs \<Rightarrow>
              if c = CHR ''.''
              then (let fracPart = takeWhile isDigit cs; rest2 = dropWhile isDigit cs
                    in \<not> (intPart = [] \<and> fracPart = []) \<and> isExponentPartOpt rest2)
              else intPart \<noteq> [] \<and> isExponentPartOpt rest))"

definition isHexDigit :: "char \<Rightarrow> bool" where
  "isHexDigit c = (isDigit c \<or> c \<in> set ''abcdefABCDEF'')"

definition isNonDecimalIntegerLiteral :: "string \<Rightarrow> bool" where
  "isNonDecimalIntegerLiteral s =
     (case s of
        c # p # ds \<Rightarrow>
          c = CHR ''0'' \<and> ds \<noteq> [] \<and>
          ((p \<in> set ''xX'' \<and> list_all isHexDigit ds) \<or>
           (p \<in> set ''oO'' \<and> list_all (\<lambda>d. d \<in> set ''01234567'') ds) \<or>
           (p \<in> set ''bB'' \<and> list_all (\<lambda>d. d \<in> set ''01'') ds))
      | _ \<Rightarrow> False)"

definition isStrNumericLiteral :: "string \<Rightarrow> bool" where
  "isStrNumericLiteral s =
     (isStrUnsignedDecimalLiteral (dropSign s) \<and> dropSign s \<noteq> [] \<or> isNonDecimalIntegerLiteral s)"

definition numberIsNaN :: "string \<Rightarrow> bool" where
  "numberIsNaN s = (let t = trim s in t \<noteq> [] \<and> \<not> isStrNumericLiteral t)"

text \<open>
  \<^verbatim>\<open>isValidDate\<close>: four patterns anchored at the start of the string only. A quantified
  digit group that is followed by a separator matches exactly when the maximal run of
  digits has an admissible length and the separator follows it; the last group of each
  pattern is a prefix match, so it asks for its minimal number of digits.
\<close>

definition digitsThen :: "nat \<Rightarrow> nat \<Rightarrow> char \<Rightarrow> string \<Rightarrow> string option" where
  "digitsThen lo hi sep s =
     (let n = length (takeWhile isDigit s)
      in if lo \<le> n \<and> n \<le> hi
         then (case drop n s of [] \<Rightarrow> None
               | c # cs \<Rightarrow> if c = sep then Some cs else None)
         else None)"

definition digitsAtLeast :: "nat \<Rightarrow> string \<Rightarrow> bool" where
  "digitsAtLeast k s = (k \<le> length (takeWhile isDigit s))"

definition matchDatePattern :: "nat \<Rightarrow> nat \<Rightarrow> nat \<Rightarrow> nat \<Rightarrow> char \<Rightarrow> nat \<Rightarrow> string \<Rightarrow> bool" where
  "matchDatePattern lo1 hi1 lo2 hi2 sep k s =
     (case digitsThen lo1 hi1 sep s of None \<Rightarrow> False
      | Some r1 \<Rightarrow> (case digitsThen lo2 hi2 sep r1 of None \<Rightarrow> False
                    | Some r2 \<Rightarrow> digitsAtLeast k r2))"

definition isValidDate :: "string \<Rightarrow> bool" where
  "isValidDate str =
     (matchDatePattern 4 4 2 2 CHR ''-'' 2 str \<or>
      matchDatePattern 2 2 2 2 CHR ''/'' 4 str \<or>
      matchDatePattern 1 2 1 2 CHR ''-'' 2 str \<or>
      matchDatePattern 1 2 1 2 CHR ''.'' 2 str)"

record typeScores =
  number :: nat
  date :: nat
  boolean :: nat
  string :: nat

text \<open>One iteration of the loop of \<^verbatim>\<open>detectColumnType\<close>.\<close>

definition scoreValue :: "string \<Rightarrow> typeScores \<Rightarrow> typeScores" where
  "scoreValue v scores =
     (let strValue = toLowerCase (trim v);
          scores = (if isBooleanLiteral strValue
                    then scores\<lparr>boolean := boolean scores + 1\<rparr> else scores);
          scores = (if \<not> numberIsNaN strValue \<and> strValue \<noteq> []
                    then scores\<lparr>number := number scores + 1\<rparr> else scores);
          scores = (if isValidDate strValue
                    then scores\<lparr>date := date scores + 1\<rparr> else scores)
      in scores\<lparr>string := string scores + 1\<rparr>)"

text \<open>
  \<^verbatim>\<open>score >= values.length * 0.8\<close>. The product is computed in binary floating point;
  for a length \<open>n\<close> below \<open>2^50\<close> the rounded product is the integer \<open>4 n / 5\<close> when
  \<open>5\<close> divides \<open>n\<close> and lies strictly between the two neighbouring integers
  otherwise, so for an integer score the comparison is the exact one below.
\<close>

definition meetsThreshold :: "nat \<Rightarrow> nat \<Rightarrow> bool" where
  "meetsThreshold score len = (4 * len \<le> 5 * score)"

definition detectColumnType :: "string list \<Rightarrow> columnType" where
  "detectColumnType values =
     (if values = [] then TString
      else
        (let scores = fold scoreValue values
                        \<lparr>number = 0, date = 0, boolean = 0, string = 0\<rparr>
         in if meetsThreshold (boolean scores) (length values) then TBoolean
            else if meetsThreshold (date scores) (length values) then TDate
            else if meetsThreshold (number scores) (length values) then TNumber
            else TString))"

fun mapToWarehouseType :: "columnType \<Rightarrow> string" where
  "mapToWarehouseType TString = ''STRING''"
| "mapToWarehouseType TNumber = ''NUMERIC''"
| "mapToWarehouseType TDate = ''TIMESTAMP''"
| "mapToWarehouseType TBoolean = ''BOOLEAN''"

text \<open>The filter \<^verbatim>\<open>val !== null && val !== undefined && val !== ''\<close>.\<close>

definition isPresent :: "string option \<Rightarrow> bool" where
  "isPresent val = (val \<noteq> None \<and> val \<noteq> Some [])"

definition sampleValuesOf :: "row list \<Rightarrow> string \<Rightarrow> string list" where
  "sampleValuesOf rows header =
     map the (filter isPresent (map (\<lambda>row. map_of row header) (take 100 rows)))"

definition inferColumn :: "row list \<Rightarrow> string \<Rightarrow> ColumnInference" where
  "inferColumn rows header =
     (let sampleValues = sampleValuesOf rows header;
          type = detectColumnType sampleValues
      in \<lparr>col_name = header,
          col_type = type,
          col_displayType = mapToWarehouseType type,
          col_nullable = (length sampleValues < length rows),
          col_sampleValues = take 5 sampleValues\<rparr>)"

definition inferColumnTypes :: "row list \<Rightarrow> string list \<Rightarrow> ColumnInference list" where
  "inferColumnTypes rows headers = map (inferColumn rows) headers"

record parseResult =
  pr_headers :: "string list"
  pr_rows :: "row list"
  pr_columns :: "ColumnInference list"

text \<open>
  The CSV and spreadsheet libraries are not part of the repository. What they deliver
  for a given buffer is a parameter: the CSV parser (run with \<^verbatim>\<open>header: true\<close> and
  \<^verbatim>\<open>skipEmptyLines: true\<close>) calls either the error callback or the completion callback
  with the data rows; the spreadsheet reader throws, has no first sheet, or yields the
  rows of the first sheet.
\<close>

datatype papaResult = PapaError string | PapaComplete "row list"

datatype xlsxResult = XlsxThrows string | XlsxNoSheet | XlsxSheet "row list"

definition firstRowKeys :: "row list \<Rightarrow> string list" where
  "firstRowKeys rows = (case rows of [] \<Rightarrow> [] | r # _ \<Rightarrow> objectKeys r)"

definition parseCSV :: "papaResult \<Rightarrow> error + parseResult" where
  "parseCSV results =
     (case results of
        PapaError message \<Rightarrow> Inl (Error (''CSV parsing failed: '' @ message))
      | PapaComplete data \<Rightarrow>
          if data = [] then Inl (Error ''CSV file is empty'')
          else (let rows = data; headers = firstRowKeys rows
                in Inr \<lparr>pr_headers = headers, pr_rows = rows,
                        pr_columns = inferColumnTypes rows headers\<rparr>))"

definition parseExcel :: "xlsxResult \<Rightarrow> error + parseResult" where
  "parseExcel workbook =
     (case workbook of
        XlsxThrows message \<Rightarrow> Inl (Error (''Excel parsing failed: '' @ message))
      | XlsxNoSheet \<Rightarrow> Inl (Error (''Excel parsing failed: '' @ ''Excel file has no sheets''))
      | XlsxSheet rows \<Rightarrow>
          if rows = [] then Inl (Error (''Excel parsing failed: '' @ ''Excel sheet is empty''))
          else (let headers = firstRowKeys rows
                in Inr \<lparr>pr_headers = headers, pr_rows = rows,
                        pr_columns = inferColumnTypes rows headers\<rparr>))"

subsection \<open>AdhocTableExploreService\<close>

datatype DimensionType = DimSTRING | DimNUMBER | DimDATE | DimBOOLEAN

datatype FieldType = DIMENSION | METRIC

datatype MetricType = COUNT | COUNT_DISTINCT | SUM | AVERAGE | MIN | MAX

text \<open>The fields of a \<^verbatim>\<open>ColumnDefinition\<close> that \<^verbatim>\<open>generateExplore\<close> reads.\<close>

record ColumnDefinition =
  cd_name :: string
  cd_type :: string
  cd_nullable :: bool

record CompiledDimension =
  dim_name :: string
  dim_label :: string
  dim_table :: string
  dim_tableLabel :: string
  dim_fieldType :: FieldType
  dim_type :: DimensionType
  dim_sql :: string
  dim_compiledSql :: string
  dim_hidden :: bool
  dim_tablesReferences :: "string list"

record CompiledMetric =
  met_name :: string
  met_label :: string
  met_table :: string
  met_tableLabel :: string
  met_fieldType :: FieldType
  met_type :: MetricType
  met_sql :: string
  met_compiledSql :: string
  met_hidden :: bool
  met_tablesReferences :: "string list"

text \<open>
  A JavaScript object used as a dictionary (\<^verbatim>\<open>Record<string, T>\<close>) is an association
  list in insertion order; writing a key that is present replaces its value in place
  (\<open>AList.update\<close>), as the object spread of the source does.
\<close>

record ExploreTable =
  tbl_name :: string
  tbl_label :: string
  tbl_database :: string
  tbl_schema :: string
  tbl_sqlTable :: string
  tbl_dimensions :: "(string \<times> CompiledDimension) list"
  tbl_metrics :: "(string \<times> CompiledMetric) list"
  tbl_description :: string

record Explore =
  exp_name :: string
  exp_label :: string
  exp_baseTable :: string
  exp_targetDatabase :: string
  exp_tags :: "string list"
  exp_joinedTables :: "string list"
  exp_tables :: "(string \<times> ExploreTable) list"
  exp_meta_adhocTableUuid :: string
  exp_meta_sourceType :: string

definition mapColumnTypeToDimensionType :: "string \<Rightarrow> DimensionType" where
  "mapColumnTypeToDimensionType columnType =
     (let t = toLowerCase columnType
      in if t = ''number'' then DimNUMBER
         else if t = ''date'' then DimDATE
         else if t = ''boolean'' then DimBOOLEAN
         else DimSTRING)"

text \<open>\<^verbatim>\<open>identifier.replace(/"/g, '""')\<close>\<close>

definition escapeIdentifier :: "string \<Rightarrow> string" where
  "escapeIdentifier identifier =
     concat (map (\<lambda>c. if c = CHR 0x22 then [CHR 0x22, CHR 0x22] else [c]) identifier)"

text \<open>
  The body of the reducer of \<^verbatim>\<open>generateDimensions\<close>. \<open>uuid\<close> is what \<^verbatim>\<open>uuidv4()\<close>
  returns while this column is processed.
\<close>

definition makeDimension :: "string \<Rightarrow> string \<Rightarrow> ColumnDefinition \<Rightarrow> string \<times> CompiledDimension" where
  "makeDimension uuid tableName column =
     (let dimensionType = mapColumnTypeToDimensionType (cd_type column);
          sanitizedName = sanitizeFieldName uuid (cd_name column)
      in (sanitizedName,
          \<lparr>dim_name = sanitizedName,
           dim_label = cd_name column,
           dim_table = tableName,
           dim_tableLabel = tableName,
           dim_fieldType = DIMENSION,
           dim_type = dimensionType,
           dim_sql = ''${TABLE}.`'' @ escapeIdentifier (cd_name column) @ ''`'',
           dim_compiledSql = [CHR 0x22] @ tableName @ [CHR 0x22] @ ''.'' @ [CHR 0x22]
                               @ escapeIdentifier (cd_name column) @ [CHR 0x22],
           dim_hidden = False,
           dim_tablesReferences = [tableName]\<rparr>))"

text \<open>
  \<^verbatim>\<open>columns.reduce((acc, column) => ({...acc, [sanitizedName]: dimension}), {})\<close>.
  \<open>uuids i\<close> is the random identifier available to the column at position \<open>i\<close>.
\<close>

definition generateDimensions ::
  "(nat \<Rightarrow> string) \<Rightarrow> ColumnDefinition list \<Rightarrow> string \<Rightarrow> (string \<times> CompiledDimension) list" where
  "generateDimensions uuids columns tableName =
     foldl (\<lambda>acc (i, column).
              (let (sanitizedName, dimension) = makeDimension (uuids i) tableName column
               in AList.update sanitizedName dimension acc))
           [] (enumerate 0 columns)"

definition generateMetrics :: "string \<Rightarrow> (string \<times> CompiledMetric) list" where
  "generateMetrics tableName =
     (let countMetric =
            \<lparr>met_name = ''row_count'',
             met_label = ''Row Count'',
             met_table = tableName,
             met_tableLabel = tableName,
             met_fieldType = METRIC,
             met_type = COUNT,
             met_sql = ''COUNT(*)'',
             met_compiledSql = ''COUNT(*)'',
             met_hidden = False,
             met_tablesReferences = [tableName]\<rparr>
      in [(''row_count'', countMetric)])"

definition generateExplore ::
  "(nat \<Rightarrow> string) \<Rightarrow> string \<Rightarrow> string \<Rightarrow> ColumnDefinition list \<Rightarrow> string \<Rightarrow> Explore" where
  "generateExplore uuids adhocTableUuid tableNameWithSchema columns warehouseType =
     (let dimensions = generateDimensions uuids columns tableNameWithSchema;
          metrics = generateMetrics tableNameWithSchema
      in \<lparr>exp_name = adhocTableUuid,
          exp_label = tableNameWithSchema,
          exp_baseTable = adhocTableUuid,
          exp_targetDatabase = warehouseType,
          exp_tags = [''adhoc'', ''uploaded''],
          exp_joinedTables = [],
          exp_tables =
            [(adhocTableUuid,
              \<lparr>tbl_name = adhocTableUuid,
               tbl_label = tableNameWithSchema,
               tbl_database = ''adhoc'',
               tbl_schema = ''adhoc'',
               tbl_sqlTable = tableNameWithSchema,
               tbl_dimensions = dimensions,
               tbl_metrics = metrics,
               tbl_description =
                 ''Adhoc table uploaded from file. UUID: '' @ adhocTableUuid\<rparr>)],
          exp_meta_adhocTableUuid = adhocTableUuid,
          exp_meta_sourceType = ''ADHOC_UPLOAD''\<rparr>)"

text \<open>The dimensions and the metrics of the base table of an Explore.\<close>

definition exploreDimensions :: "Explore \<Rightarrow> (string \<times> CompiledDimension) list" where
  "exploreDimensions e =
     (case map_of (exp_tables e) (exp_baseTable e) of None \<Rightarrow> []
      | Some t \<Rightarrow> tbl_dimensions t)"

definition exploreMetrics :: "Explore \<Rightarrow> (string \<times> CompiledMetric) list" where
  "exploreMetrics e =
     (case map_of (exp_tables e) (exp_baseTable e) of None \<Rightarrow> []
      | Some t \<Rightarrow> tbl_metrics t)"

subsection \<open>Types of the ad-hoc table service\<close>

datatype AdhocTableType = CSV | EXCEL

datatype AdhocTableScope = PERSONAL | SHARED

text \<open>The string value of each member of the enum, which is what the database stores.\<close>

fun scopeValue :: "AdhocTableScope \<Rightarrow> string" where
  "scopeValue PERSONAL = ''personal''"
| "scopeValue SHARED = ''shared''"

datatype AdhocTableRetention = TEMPORARY | PERMANENT

text \<open>
  \<^verbatim>\<open>request.file\<close> is a byte buffer. It is modelled by its text: for ASCII content
  \<^verbatim>\<open>file.toString()\<close> is the text itself and \<^verbatim>\<open>file.length\<close> is its length.
\<close>

record AdhocTableCreateRequest =
  req_file :: string
  req_fileName :: string
  req_fileType :: AdhocTableType
  req_tableName :: string
  req_description :: "string option"
  req_scope :: AdhocTableScope
  req_retention :: AdhocTableRetention
  req_retentionDays :: "nat option"

text \<open>
  The \<^verbatim>\<open>metadata\<close> column. The source stores \<^verbatim>\<open>JSON.stringify\<close> of the object and reads
  it back with \<^verbatim>\<open>JSON.parse\<close>; the model keeps the object. Time stamps are numbers.
\<close>

record tableMetadata =
  md_fileName :: string
  md_fileSize :: nat
  md_fileType :: AdhocTableType
  md_uploadedAt :: nat
  md_columnCount :: nat
  md_rowCount :: nat

text \<open>A row of the table \<^verbatim>\<open>adhoc_tables\<close>.\<close>

record adhoc_row =
  uuid :: string
  project_uuid :: string
  organization_uuid :: string
  name :: string
  description :: "string option"
  warehouse_table_name :: string
  warehouse_type :: string
  scope :: AdhocTableScope
  retention :: AdhocTableRetention
  retention_days :: "nat option"
  created_by :: string
  created_at :: nat
  updated_at :: nat
  deleted_at :: "nat option"
  metadata :: tableMetadata

record AdhocTableRecord =
  r_uuid :: string
  r_projectUuid :: string
  r_organizationUuid :: string
  r_name :: string
  r_description :: "string option"
  r_warehouseTableName :: string
  r_warehouseType :: string
  r_scope :: AdhocTableScope
  r_retention :: AdhocTableRetention
  r_retentionDays :: "nat option"
  r_createdBy :: string
  r_createdAt :: nat
  r_updatedAt :: nat
  r_deletedAt :: "nat option"
  r_metadata :: tableMetadata


subsection \<open>The database, the warehouse and the other collaborators\<close>

text \<open>A row of \<^verbatim>\<open>adhoc_table_access\<close>, with the columns that \<^verbatim>\<open>grantTableAccess\<close> writes.\<close>

record access_row =
  adhoc_table_uuid :: string
  user_uuid :: string
  granted_by :: string
  granted_at :: nat

text \<open>
  \<^verbatim>\<open>cached_explore\<close> has the unique key \<^verbatim>\<open>(project_uuid, name)\<close>, the conflict target of
  its upsert. The table is an association list from that key to the other columns.
\<close>

record cached_explore_row =
  cached_explore_uuid :: string
  table_names :: "string list"
  explore :: Explore

datatype CatalogType = CatalogTable | CatalogField

text \<open>
  A row of \<^verbatim>\<open>catalog_search\<close>. The columns \<^verbatim>\<open>required_attributes\<close> and \<^verbatim>\<open>chart_usage\<close>
  always receive the empty object and \<^verbatim>\<open>null\<close> and are left out.
\<close>

record catalog_row =
  cs_project_uuid :: string
  cs_cached_explore_uuid :: string
  cs_name :: string
  cs_type :: CatalogType
  cs_table_name :: string
  cs_description :: string
  cs_icon :: "string option"

text \<open>One call of \<^verbatim>\<open>createTableFromData\<close> on a warehouse client.\<close>

record warehouse_call =
  wc_tableName :: string
  wc_rows :: "row list"
  wc_columns :: "ColumnInference list"
  wc_succeeded :: bool

text \<open>
  The state that the services read and write: the five tables of the application
  database and the log of the calls made to the warehouse.
\<close>

record state =
  adhoc_tables :: "adhoc_row list"
  adhoc_table_access :: "access_row list"
  project_memberships :: "(string \<times> string) list"
  cached_explore :: "((string \<times> string) \<times> cached_explore_row) list"
  catalog_search :: "catalog_row list"
  warehouse_calls :: "warehouse_call list"

record project =
  proj_organizationUuid :: string
  proj_warehouseConnectionType :: string

record credentials =
  cred_type :: string

text \<open>
  What lies outside the repository is a parameter of the model: the project and user
  models, the two parsing libraries, the warehouse client, the values of
  \<^verbatim>\<open>gen_random_uuid()\<close>, \<^verbatim>\<open>now()\<close>, \<^verbatim>\<open>Date.now().toString(36)\<close> and \<^verbatim>\<open>uuidv4()\<close>, and
  whether a write to \<^verbatim>\<open>cached_explore\<close> or \<^verbatim>\<open>catalog_search\<close> fails (\<open>Some message\<close>
  is the message of the error that the database driver throws). Reads of the database
  and the insert into \<^verbatim>\<open>adhoc_tables\<close> are taken to succeed.
\<close>

record externals =
  getProject :: "string \<Rightarrow> project option"
  getUserByUuid :: "string \<Rightarrow> string option"
  getWarehouseCredentialsForProject :: "string \<Rightarrow> error + credentials"
  papaParse :: "string \<Rightarrow> papaResult"
  xlsxRead :: "string \<Rightarrow> xlsxResult"
  hasCreateTableFromData :: "string \<Rightarrow> bool"
  createTableFromData :: "string \<Rightarrow> row list \<Rightarrow> ColumnInference list \<Rightarrow> string option"
  gen_random_uuid :: string
  now :: nat
  dateNowBase36 :: string
  new_cached_explore_uuid :: string
  uuidv4 :: "nat \<Rightarrow> string"
  cachedExploreWriteFails :: "string option"
  catalogInsertFails :: "catalog_row \<Rightarrow> string option"
  catalogDeleteFails :: "string option"

subsection \<open>AdhocTablePermissionService\<close>

definition userCanAccessProject :: "state \<Rightarrow> string \<Rightarrow> string \<Rightarrow> bool" where
  "userCanAccessProject st projectUuid userUuid =
     (find (\<lambda>m. fst m = projectUuid \<and> snd m = userUuid) (project_memberships st) \<noteq> None)"

text \<open>\<^verbatim>\<open>.where('uuid', tableUuid).whereNull('deleted_at').first()\<close>\<close>

definition findLiveTable :: "state \<Rightarrow> string \<Rightarrow> adhoc_row option" where
  "findLiveTable st tableUuid =
     find (\<lambda>t. uuid t = tableUuid \<and> deleted_at t = None) (adhoc_tables st)"

definition userCanAccessTable :: "state \<Rightarrow> string \<Rightarrow> string \<Rightarrow> bool" where
  "userCanAccessTable st tableUuid userUuid =
     (case findLiveTable st tableUuid of
        None \<Rightarrow> False
      | Some table \<Rightarrow>
          if created_by table = userUuid then True
          else if scopeValue (scope table) = ''SHARED''
               then userCanAccessProject st (project_uuid table) userUuid
               else False)"

definition verifyTableAccess :: "state \<Rightarrow> string \<Rightarrow> string \<Rightarrow> error + unit" where
  "verifyTableAccess st tableUuid userUuid =
     (if \<not> userCanAccessTable st tableUuid userUuid
      then Inl (ForbiddenError ''You do not have access to this adhoc table'')
      else Inr ())"

definition userCanDeleteTable :: "state \<Rightarrow> string \<Rightarrow> string \<Rightarrow> bool" where
  "userCanDeleteTable st tableUuid userUuid =
     (case findLiveTable st tableUuid of
        None \<Rightarrow> False
      | Some table \<Rightarrow> created_by table = userUuid)"

definition userCanShareTable :: "state \<Rightarrow> string \<Rightarrow> string \<Rightarrow> bool" where
  "userCanShareTable st tableUuid userUuid = userCanDeleteTable st tableUuid userUuid"

text \<open>\<^verbatim>\<open>.insert(row).onConflict(['adhoc_table_uuid', 'user_uuid']).merge()\<close>\<close>

fun upsertAccess :: "access_row \<Rightarrow> access_row list \<Rightarrow> access_row list" where
  "upsertAccess new [] = [new]"
| "upsertAccess new (a # as) =
     (if adhoc_table_uuid a = adhoc_table_uuid new \<and> user_uuid a = user_uuid new
      then new # as else a # upsertAccess new as)"

definition grantTableAccess ::
  "externals \<Rightarrow> state \<Rightarrow> string \<Rightarrow> string \<Rightarrow> string \<Rightarrow> (error + unit) \<times> state" where
  "grantTableAccess ext st tableUuid userUuid grantedByUserUuid =
     (if \<not> userCanShareTable st tableUuid grantedByUserUuid
      then (Inl (ForbiddenError ''You do not have permission to share this table''), st)
      else (Inr (),
            st\<lparr>adhoc_table_access :=
                 upsertAccess \<lparr>adhoc_table_uuid = tableUuid, user_uuid = userUuid,
                               granted_by = grantedByUserUuid, granted_at = now ext\<rparr>
                              (adhoc_table_access st)\<rparr>))"

definition revokeTableAccess ::
  "state \<Rightarrow> string \<Rightarrow> string \<Rightarrow> string \<Rightarrow> (error + unit) \<times> state" where
  "revokeTableAccess st tableUuid userUuid revokedByUserUuid =
     (if \<not> userCanShareTable st tableUuid revokedByUserUuid
      then (Inl (ForbiddenError
                  ''You do not have permission to modify sharing for this table''), st)
      else (Inr (),
            st\<lparr>adhoc_table_access :=
                 filter (\<lambda>a. \<not> (adhoc_table_uuid a = tableUuid \<and> user_uuid a = userUuid))
                        (adhoc_table_access st)\<rparr>))"

subsection \<open>AdhocTableCatalogService\<close>

text \<open>\<^verbatim>\<open>a || b\<close> on strings: the empty string and \<^verbatim>\<open>undefined\<close> give \<open>b\<close>.\<close>

definition orElse :: "string option \<Rightarrow> string \<Rightarrow> string" where
  "orElse a b = (case a of None \<Rightarrow> b | Some x \<Rightarrow> if x = [] then b else x)"

text \<open>
  \<^verbatim>\<open>.insert(entry).onConflict(['project_uuid', 'name', 'cached_explore_uuid', 'type']).merge()\<close>
\<close>

definition sameCatalogKey :: "catalog_row \<Rightarrow> catalog_row \<Rightarrow> bool" where
  "sameCatalogKey a b =
     (cs_project_uuid a = cs_project_uuid b \<and> cs_name a = cs_name b \<and>
      cs_cached_explore_uuid a = cs_cached_explore_uuid b \<and> cs_type a = cs_type b)"

fun upsertCatalog :: "catalog_row \<Rightarrow> catalog_row list \<Rightarrow> catalog_row list" where
  "upsertCatalog new [] = [new]"
| "upsertCatalog new (c # cs) =
     (if sameCatalogKey c new then new # cs else c # upsertCatalog new cs)"

definition catalogInsert :: "externals \<Rightarrow> state \<Rightarrow> catalog_row \<Rightarrow> (error + unit) \<times> state" where
  "catalogInsert ext st entry =
     (case catalogInsertFails ext entry of
        Some message \<Rightarrow> (Inl (Error message), st)
      | None \<Rightarrow> (Inr (), st\<lparr>catalog_search := upsertCatalog entry (catalog_search st)\<rparr>))"

text \<open>The \<^verbatim>\<open>for (const entry of entries)\<close> loops: the first failing insert ends the loop.\<close>

fun catalogInsertAll :: "externals \<Rightarrow> state \<Rightarrow> catalog_row list \<Rightarrow> (error + unit) \<times> state" where
  "catalogInsertAll ext st [] = (Inr (), st)"
| "catalogInsertAll ext st (entry # entries) =
     (case catalogInsert ext st entry of
        (Inl e, st') \<Rightarrow> (Inl e, st')
      | (Inr _, st') \<Rightarrow> catalogInsertAll ext st' entries)"

text \<open>
  \<^verbatim>\<open>registerInCatalog\<close>. Its \<^verbatim>\<open>catch\<close> block logs and throws the error again, so an
  error leaves the function with the entries written so far.
\<close>

definition registerInCatalog ::
  "externals \<Rightarrow> state \<Rightarrow> string \<Rightarrow> string \<Rightarrow> string \<Rightarrow> Explore \<Rightarrow> string option
     \<Rightarrow> (error + unit) \<times> state" where
  "registerInCatalog ext st projectUuid adhocTableUuid tableName expl baseTableName =
     (case map_of (cached_explore st) (projectUuid, adhocTableUuid) of
        None \<Rightarrow> (Inr (), st)
      | Some cachedExplore \<Rightarrow>
          (let cachedExploreUuid = cached_explore_uuid cachedExplore
           in case map_of (exp_tables expl) (exp_baseTable expl) of
                None \<Rightarrow> (Inr (), st)
              | Some baseTable \<Rightarrow>
                  (let tableCatalogEntry =
                         \<lparr>cs_project_uuid = projectUuid,
                          cs_cached_explore_uuid = cachedExploreUuid,
                          cs_name = orElse baseTableName tableName,
                          cs_type = CatalogTable,
                          cs_table_name = orElse baseTableName tableName,
                          cs_description = ''Uploaded table: '' @ tableName,
                          cs_icon = Some ''upload''\<rparr>;
                       dimensionEntries =
                         map (\<lambda>dim. \<lparr>cs_project_uuid = projectUuid,
                                     cs_cached_explore_uuid = cachedExploreUuid,
                                     cs_name = dim_name dim,
                                     cs_type = CatalogField,
                                     cs_table_name = orElse baseTableName tableName,
                                     cs_description = orElse (Some (dim_label dim)) (dim_name dim),
                                     cs_icon = None\<rparr>)
                             (map snd (tbl_dimensions baseTable));
                       metricEntries =
                         map (\<lambda>metric. \<lparr>cs_project_uuid = projectUuid,
                                        cs_cached_explore_uuid = cachedExploreUuid,
                                        cs_name = met_name metric,
                                        cs_type = CatalogField,
                                        cs_table_name = orElse baseTableName tableName,
                                        cs_description =
                                          orElse (Some (met_label metric)) (met_name metric),
                                        cs_icon = None\<rparr>)
                             (map snd (tbl_metrics baseTable))
                   in case catalogInsert ext st tableCatalogEntry of
                        (Inl e, st1) \<Rightarrow> (Inl e, st1)
                      | (Inr _, st1) \<Rightarrow>
                          (case catalogInsertAll ext st1 dimensionEntries of
                             (Inl e, st2) \<Rightarrow> (Inl e, st2)
                           | (Inr _, st2) \<Rightarrow> catalogInsertAll ext st2 metricEntries))))"


subsection \<open>AdhocTableService\<close>

definition formatRecord :: "adhoc_row \<Rightarrow> AdhocTableRecord" where
  "formatRecord record =
     \<lparr>r_uuid = uuid record,
      r_projectUuid = project_uuid record,
      r_organizationUuid = organization_uuid record,
      r_name = name record,
      r_description = description record,
      r_warehouseTableName = warehouse_table_name record,
      r_warehouseType = warehouse_type record,
      r_scope = scope record,
      r_retention = retention record,
      r_retentionDays = retention_days record,
      r_createdBy = created_by record,
      r_createdAt = created_at record,
      r_updatedAt = updated_at record,
      r_deletedAt = deleted_at record,
      r_metadata = metadata record\<rparr>"

text \<open>
  \<^verbatim>\<open>generateWarehouseTableName\<close>: \<^verbatim>\<open>userUuid.split('-')[0].slice(0, 8)\<close> is the text
  before the first hyphen, cut to eight characters.
\<close>

definition generateWarehouseTableName :: "externals \<Rightarrow> string \<Rightarrow> string \<Rightarrow> string" where
  "generateWarehouseTableName ext tableName userUuid =
     (let sanitized = take 50 (replaceNonLowerWord (toLowerCase tableName));
          userPrefix = take 8 (takeWhile (\<lambda>c. c \<noteq> CHR ''-'') userUuid);
          timestamp = dateNowBase36 ext
      in ''adhoc_'' @ sanitized @ ''_'' @ userPrefix @ ''_'' @ timestamp)"

text \<open>
  \<^verbatim>\<open>createWarehouseTable\<close>. The call of the client is recorded in the log whether it
  succeeds or throws.
\<close>

definition createWarehouseTable ::
  "externals \<Rightarrow> state \<Rightarrow> string \<Rightarrow> string \<Rightarrow> row list \<Rightarrow> ColumnInference list
     \<Rightarrow> (error + unit) \<times> state" where
  "createWarehouseTable ext st warehouseType tableName rows columns =
     (if \<not> hasCreateTableFromData ext warehouseType
      then (Inl (Error ''Warehouse type does not support adhoc table creation''), st)
      else (case createTableFromData ext tableName rows columns of
              Some message \<Rightarrow>
                (Inl (Error message),
                 st\<lparr>warehouse_calls := warehouse_calls st @
                      [\<lparr>wc_tableName = tableName, wc_rows = rows, wc_columns = columns,
                        wc_succeeded = False\<rparr>]\<rparr>)
            | None \<Rightarrow>
                (Inr (),
                 st\<lparr>warehouse_calls := warehouse_calls st @
                      [\<lparr>wc_tableName = tableName, wc_rows = rows, wc_columns = columns,
                        wc_succeeded = True\<rparr>]\<rparr>)))"

text \<open>
  \<^verbatim>\<open>registerExplore\<close>: the upsert keeps the \<^verbatim>\<open>cached_explore_uuid\<close> of a row that is
  already there and returns it.
\<close>

definition registerExplore ::
  "externals \<Rightarrow> state \<Rightarrow> string \<Rightarrow> string \<Rightarrow> string \<Rightarrow> ColumnInference list \<Rightarrow> string
     \<Rightarrow> (error + string) \<times> state" where
  "registerExplore ext st projectUuid adhocTableUuid warehouseTableName columns warehouseType =
     (let columnDefs = map (\<lambda>col. \<lparr>cd_name = col_name col,
                                   cd_type = columnTypeName (col_type col),
                                   cd_nullable = True\<rparr>) columns;
          expl = generateExplore (uuidv4 ext) adhocTableUuid warehouseTableName columnDefs
                   warehouseType
      in case cachedExploreWriteFails ext of
           Some message \<Rightarrow> (Inl (Error message), st)
         | None \<Rightarrow>
             (let result =
                    (case map_of (cached_explore st) (projectUuid, adhocTableUuid) of
                       None \<Rightarrow> \<lparr>cached_explore_uuid = new_cached_explore_uuid ext,
                                 table_names = [adhocTableUuid], explore = expl\<rparr>
                     | Some old \<Rightarrow> old\<lparr>table_names := [adhocTableUuid], explore := expl\<rparr>)
              in (Inr (cached_explore_uuid result),
                  st\<lparr>cached_explore :=
                       AList.update (projectUuid, adhocTableUuid) result (cached_explore st)\<rparr>)))"

text \<open>The row that \<^verbatim>\<open>createFromFile\<close> inserts into \<^verbatim>\<open>adhoc_tables\<close>.\<close>

definition newAdhocRow ::
  "externals \<Rightarrow> string \<Rightarrow> string \<Rightarrow> project \<Rightarrow> AdhocTableCreateRequest \<Rightarrow> string \<Rightarrow> string
     \<Rightarrow> parseResult \<Rightarrow> adhoc_row" where
  "newAdhocRow ext projectUuid userUuid proj request warehouseTableName warehouseType parsed =
     \<lparr>uuid = gen_random_uuid ext,
      project_uuid = projectUuid,
      organization_uuid = proj_organizationUuid proj,
      name = req_tableName request,
      description = req_description request,
      warehouse_table_name = warehouseTableName,
      warehouse_type = warehouseType,
      scope = req_scope request,
      retention = req_retention request,
      retention_days = req_retentionDays request,
      created_by = userUuid,
      created_at = now ext,
      updated_at = now ext,
      deleted_at = None,
      metadata =
        \<lparr>md_fileName = take 255 (req_file request),
         md_fileSize = length (req_file request),
         md_fileType = req_fileType request,
         md_uploadedAt = now ext,
         md_columnCount = length (pr_columns parsed),
         md_rowCount = length (pr_rows parsed)\<rparr>\<rparr>"

definition parseFile :: "externals \<Rightarrow> AdhocTableCreateRequest \<Rightarrow> error + parseResult" where
  "parseFile ext request =
     (if req_fileType request = CSV
      then parseCSV (papaParse ext (req_file request))
      else parseExcel (xlsxRead ext (req_file request)))"

text \<open>
  The two nested \<^verbatim>\<open>try\<close> blocks at the end of \<^verbatim>\<open>createFromFile\<close>: both \<^verbatim>\<open>catch\<close>
  blocks log the error and go on.
\<close>

definition registerExploreAndCatalog ::
  "externals \<Rightarrow> state \<Rightarrow> string \<Rightarrow> adhoc_row \<Rightarrow> AdhocTableCreateRequest \<Rightarrow> string
     \<Rightarrow> ColumnInference list \<Rightarrow> string \<Rightarrow> state" where
  "registerExploreAndCatalog ext st projectUuid record request warehouseTableName columns
     warehouseType =
     (case registerExplore ext st projectUuid (uuid record) warehouseTableName columns
             warehouseType of
        (Inl error, st1) \<Rightarrow> st1
      | (Inr exploreUuid, st1) \<Rightarrow>
          (case find (\<lambda>kv. cached_explore_uuid (snd kv) = exploreUuid) (cached_explore st1) of
             None \<Rightarrow> st1
           | Some kv \<Rightarrow>
               (case registerInCatalog ext st1 projectUuid (uuid record) (req_tableName request)
                       (explore (snd kv)) (Some warehouseTableName) of
                  (Inl catalogError, st2) \<Rightarrow> st2
                | (Inr _, st2) \<Rightarrow> st2)))"

text \<open>\<^verbatim>\<open>createFromFile\<close> of the service with Explore and catalog registration.\<close>

definition createFromFile ::
  "externals \<Rightarrow> state \<Rightarrow> string \<Rightarrow> string \<Rightarrow> AdhocTableCreateRequest
     \<Rightarrow> (error + AdhocTableRecord) \<times> state" where
  "createFromFile ext st projectUuid userUuid request =
     (case getProject ext projectUuid of
        None \<Rightarrow> (Inl (NotFoundError (''Project '' @ projectUuid @ '' not found'')), st)
      | Some proj \<Rightarrow>
          (case parseFile ext request of
             Inl e \<Rightarrow> (Inl e, st)
           | Inr parsed \<Rightarrow>
               if pr_rows parsed = [] then (Inl (Error ''Uploaded file is empty''), st)
               else
                 (let warehouseTableName =
                        generateWarehouseTableName ext (req_tableName request) userUuid
                  in case getWarehouseCredentialsForProject ext projectUuid of
                       Inl e \<Rightarrow> (Inl e, st)
                     | Inr creds \<Rightarrow>
                         (case createWarehouseTable ext st (cred_type creds) warehouseTableName
                                 (pr_rows parsed) (pr_columns parsed) of
                            (Inl e, st1) \<Rightarrow> (Inl e, st1)
                          | (Inr _, st1) \<Rightarrow>
                              (let record = newAdhocRow ext projectUuid userUuid proj request
                                              warehouseTableName (cred_type creds) parsed;
                                   st2 = st1\<lparr>adhoc_tables := adhoc_tables st1 @ [record]\<rparr>;
                                   st3 = registerExploreAndCatalog ext st2 projectUuid record
                                           request warehouseTableName (pr_columns parsed)
                                           (cred_type creds)
                               in (Inr (formatRecord record), st3))))))"

text \<open>\<^verbatim>\<open>createFromFile\<close> of \<^verbatim>\<open>services/AdhocTableService/index.ts\<close>.\<close>

definition createFromFile_index ::
  "externals \<Rightarrow> state \<Rightarrow> string \<Rightarrow> string \<Rightarrow> AdhocTableCreateRequest
     \<Rightarrow> (error + AdhocTableRecord) \<times> state" where
  "createFromFile_index ext st projectUuid userUuid request =
     (case getProject ext projectUuid of
        None \<Rightarrow> (Inl (NotFoundError (''Project '' @ projectUuid @ '' not found'')), st)
      | Some proj \<Rightarrow>
          (case getUserByUuid ext userUuid of
             None \<Rightarrow> (Inl (NotFoundError (''User '' @ userUuid @ '' not found'')), st)
           | Some user \<Rightarrow>
               (case parseFile ext request of
                  Inl e \<Rightarrow> (Inl e, st)
                | Inr parsed \<Rightarrow>
                    if pr_rows parsed = [] then (Inl (Error ''Uploaded file is empty''), st)
                    else
                      (let warehouseTableName =
                             generateWarehouseTableName ext (req_tableName request) userUuid
                       in case createWarehouseTable ext st (proj_warehouseConnectionType proj)
                                 warehouseTableName (pr_rows parsed) (pr_columns parsed) of
                            (Inl e, st1) \<Rightarrow> (Inl e, st1)
                          | (Inr _, st1) \<Rightarrow>
                              (let record = newAdhocRow ext projectUuid userUuid proj request
                                              warehouseTableName
                                              (proj_warehouseConnectionType proj) parsed
                               in (Inr (formatRecord record),
                                   st1\<lparr>adhoc_tables := adhoc_tables st1 @ [record]\<rparr>))))))"







subsection \<open>Notions used to state the properties\<close>

text \<open>A sampled value counts as boolean when the check of \<^verbatim>\<open>detectColumnType\<close> accepts it.\<close>

definition matchesBooleanLiteral :: "string \<Rightarrow> bool" where
  "matchesBooleanLiteral v = isBooleanLiteral (toLowerCase (trim v))"

definition booleanHits :: "string list \<Rightarrow> nat" where
  "booleanHits values = length (filter matchesBooleanLiteral values)"

definition looksNumeric :: "string \<Rightarrow> bool" where
  "looksNumeric v = (\<not> numberIsNaN (toLowerCase (trim v)) \<and> toLowerCase (trim v) \<noteq> [])"

definition numberHits :: "string list \<Rightarrow> nat" where
  "numberHits values = length (filter looksNumeric values)"

text \<open>Every row has a value for the column that is neither missing nor empty.\<close>

definition noMissingValue :: "row list \<Rightarrow> string \<Rightarrow> bool" where
  "noMissingValue rows header = list_all (\<lambda>row. isPresent (map_of row header)) rows"

text \<open>The parsing library reports a file without data rows (a header line only).\<close>

definition zeroDataRows :: "externals \<Rightarrow> AdhocTableCreateRequest \<Rightarrow> bool" where
  "zeroDataRows ext request =
     (if req_fileType request = CSV
      then papaParse ext (req_file request) = PapaComplete []
      else xlsxRead ext (req_file request) = XlsxSheet [])"


subsection \<open>Concrete inputs\<close>

text \<open>
  The upload of the end-to-end scenario: a CSV file with the header
  \<^verbatim>\<open>id,active,signup_date\<close> and three data rows, and what the CSV parser delivers for it.
\<close>

definition demoCsv :: string where
  "demoCsv = ''id,active,signup_date'' @ [CHR 0x0A] @ ''1,true,2024-01-01'' @ [CHR 0x0A] @
             ''2,false,2024-02-15'' @ [CHR 0x0A] @ ''3,yes,2024-03-10'' @ [CHR 0x0A]"

definition demoRows :: "row list" where
  "demoRows =
     [[(''id'', ''1''), (''active'', ''true''), (''signup_date'', ''2024-01-01'')],
      [(''id'', ''2''), (''active'', ''false''), (''signup_date'', ''2024-02-15'')],
      [(''id'', ''3''), (''active'', ''yes''), (''signup_date'', ''2024-03-10'')]]"

definition headerOnlyCsv :: string where
  "headerOnlyCsv = ''id,active,signup_date'' @ [CHR 0x0A]"

definition demoProject :: project where
  "demoProject = \<lparr>proj_organizationUuid = ''org-1'', proj_warehouseConnectionType = ''postgres''\<rparr>"

text \<open>Collaborators that all succeed; the project \<open>''project-1''\<close> is the only one.\<close>

definition demoExternals :: externals where
  "demoExternals =
     \<lparr>getProject = (\<lambda>p. if p = ''project-1'' then Some demoProject else None),
      getUserByUuid = (\<lambda>u. Some u),
      getWarehouseCredentialsForProject = (\<lambda>p. Inr \<lparr>cred_type = ''postgres''\<rparr>),
      papaParse = (\<lambda>text. if text = demoCsv then PapaComplete demoRows else PapaComplete []),
      xlsxRead = (\<lambda>buffer. XlsxSheet []),
      hasCreateTableFromData = (\<lambda>t. True),
      createTableFromData = (\<lambda>tableName rows columns. None),
      gen_random_uuid = ''table-1'',
      now = 1000,
      dateNowBase36 = ''lq1x2k'',
      new_cached_explore_uuid = ''explore-1'',
      uuidv4 = (\<lambda>i. ''0f8fad5b-d9cb-469f-a165-70867728950e''),
      cachedExploreWriteFails = None,
      catalogInsertFails = (\<lambda>entry. None),
      catalogDeleteFails = None\<rparr>"

definition demoRequest :: AdhocTableCreateRequest where
  "demoRequest =
     \<lparr>req_file = demoCsv,
      req_fileName = ''signups.csv'',
      req_fileType = CSV,
      req_tableName = ''Signups'',
      req_description = None,
      req_scope = PERSONAL,
      req_retention = PERMANENT,
      req_retentionDays = None\<rparr>"

definition emptyState :: state where
  "emptyState =
     \<lparr>adhoc_tables = [], adhoc_table_access = [], project_memberships = [],
      cached_explore = [], catalog_search = [], warehouse_calls = []\<rparr>"

definition demoMetadata :: tableMetadata where
  "demoMetadata =
     \<lparr>md_fileName = ''signups.csv'', md_fileSize = 76, md_fileType = CSV,
      md_uploadedAt = 900, md_columnCount = 3, md_rowCount = 3\<rparr>"

text \<open>A table of \<open>''alice''\<close> in \<open>''project-1''\<close> with the given identifier and scope.\<close>

definition demoTable :: "string \<Rightarrow> AdhocTableScope \<Rightarrow> adhoc_row" where
  "demoTable tableUuid sc =
     \<lparr>uuid = tableUuid,
      project_uuid = ''project-1'',
      organization_uuid = ''org-1'',
      name = ''Signups'',
      description = None,
      warehouse_table_name = ''adhoc_signups_alice_lq1x2k'',
      warehouse_type = ''postgres'',
      scope = sc,
      retention = PERMANENT,
      retention_days = None,
      created_by = ''alice'',
      created_at = 900,
      updated_at = 900,
      deleted_at = None,
      metadata = demoMetadata\<rparr>"

text \<open>
  A project with the two members \<open>''alice''\<close> and \<open>''bob''\<close>, in which \<open>''alice''\<close>
  owns a personal table \<open>''table-p''\<close> and a shared table \<open>''table-s''\<close>.
\<close>

definition twoMemberState :: state where
  "twoMemberState =
     emptyState
       \<lparr>adhoc_tables := [demoTable ''table-p'' PERSONAL, demoTable ''table-s'' SHARED],
        project_memberships := [(''project-1'', ''alice''), (''project-1'', ''bob'')]\<rparr>"

text \<open>Two columns whose names differ in case only.\<close>

definition nameColumns :: "ColumnDefinition list" where
  "nameColumns =
     [\<lparr>cd_name = ''Name'', cd_type = ''string'', cd_nullable = True\<rparr>,
      \<lparr>cd_name = ''name'', cd_type = ''string'', cd_nullable = True\<rparr>]"

text \<open>The three columns of the end-to-end scenario, as \<^verbatim>\<open>registerExplore\<close> passes them on.\<close>

definition demoColumns :: "ColumnDefinition list" where
  "demoColumns =
     [\<lparr>cd_name = ''id'', cd_type = ''number'', cd_nullable = True\<rparr>,
      \<lparr>cd_name = ''active'', cd_type = ''boolean'', cd_nullable = True\<rparr>,
      \<lparr>cd_name = ''signup_date'', cd_type = ''date'', cd_nullable = True\<rparr>]"


text \<open>
  The sanitized names under which \<^verbatim>\<open>generateDimensions\<close> stores the columns, in the
  order of the columns.
\<close>

definition dimensionKeys :: "(nat \<Rightarrow> string) \<Rightarrow> nat \<Rightarrow> ColumnDefinition list \<Rightarrow> string list" where
  "dimensionKeys uuids n columns =
     map (\<lambda>(i, column). sanitizeFieldName (uuids i) (cd_name column)) (enumerate n columns)"

section \<open>Properties\<close>

subsection \<open>Identifier sanitizers\<close>

lemmas char_class_defs = isWordChar_def isLowerWordChar_def isLetterOrUnderscore_def
  isLowerAZ_def isUpperAZ_def isDigit_def

lemmas sanitizeColumnName_defs = postgresSanitizeColumnName_def bigQuerySanitizeColumnName_def
  redshiftSanitizeColumnName_def sanitizeColumnName_def replaceBadFirst_def replaceNonWord_def
  stripUnderscores_def

text \<open>
  C8. Claim: every backend's sanitize routine is idempotent. The helpers replace a bad
  first character by an underscore and strip the leading underscores afterwards, so a
  name whose first character after the leading underscores is a digit is sanitized to
  a name that starts with that digit, and sanitizing the result again removes the
  digit. At the input \<open>''_9a''\<close> each of the three helpers returns \<open>''9a''\<close>, and
  returns \<open>''a''\<close> on \<open>''9a''\<close>: sanitizing twice differs from sanitizing once.
\<close>

theorem sanitizeColumnName_not_idempotent:
  "postgresSanitizeColumnName ''_9a'' = ''9a'' \<and>
   postgresSanitizeColumnName (postgresSanitizeColumnName ''_9a'') = ''a'' \<and>
   bigQuerySanitizeColumnName ''_9a'' = ''9a'' \<and>
   bigQuerySanitizeColumnName (bigQuerySanitizeColumnName ''_9a'') = ''a'' \<and>
   redshiftSanitizeColumnName ''_9a'' = ''9a'' \<and>
   redshiftSanitizeColumnName (redshiftSanitizeColumnName ''_9a'') = ''a''"
  by (simp add: sanitizeColumnName_defs char_class_defs)

text \<open>
  The final \<^verbatim>\<open>substring\<close> is a second way to leave a name that the routine changes
  again: a name of 64 characters with an underscore at position 63 is cut to a name
  that ends with the underscore, which the next run strips.
\<close>

lemma sanitizeColumnName_truncation:
  "postgresSanitizeColumnName (replicate 62 CHR ''a'' @ ''_b'') = replicate 62 CHR ''a'' @ ''_'' \<and>
   postgresSanitizeColumnName (replicate 62 CHR ''a'' @ ''_'') = replicate 62 CHR ''a''"
  by code_simp

text \<open>
  C9. Claim: for a name that starts with a digit the sanitizer's output starts with an
  underscore. In the warehouse helpers the underscore that replaces the digit is
  stripped again: \<open>''9a''\<close> starts with a digit and is sanitized to \<open>''a''\<close>, and
  \<open>''99''\<close> is sanitized to \<open>''9''\<close>, which starts with a digit.
\<close>

theorem sanitizeColumnName_digit_not_prefixed:
  "isDigit (hd ''9a'') \<and>
   postgresSanitizeColumnName ''9a'' = ''a'' \<and>
   hd (postgresSanitizeColumnName ''9a'') \<noteq> CHR ''_'' \<and>
   postgresSanitizeColumnName ''99'' = ''9''"
  by (simp add: sanitizeColumnName_defs char_class_defs)

text \<open>
  The sibling routine \<^verbatim>\<open>sanitizeFieldName\<close> strips first and prefixes afterwards, and
  does yield the leading underscore for every name that starts with a digit.
\<close>

lemma collapseUnderscores_keep:
  "c \<noteq> CHR ''_'' \<Longrightarrow> collapseUnderscores (c # xs) = c # collapseUnderscores xs"
  by (cases xs) auto

lemma dropWhile_snoc_keep: "\<not> P c \<Longrightarrow> dropWhile P (ys @ [c]) = dropWhile P ys @ [c]"
  by (induction ys) auto

lemma stripUnderscores_keep:
  "c \<noteq> CHR ''_'' \<Longrightarrow>
   stripUnderscores (c # xs) = c # rev (dropWhile (\<lambda>c. c = CHR ''_'') (rev xs))"
  by (simp add: stripUnderscores_def dropWhile_snoc_keep)

lemma isDigit_lower:
  "isDigit c \<Longrightarrow> lowerChar c = c \<and> isLowerWordChar c \<and> c \<noteq> CHR ''_''"
  by (auto simp: lowerChar_def char_class_defs)

lemma sanitizeFieldName_digit_prefixed:
  assumes "isDigit c"
  shows "\<exists>ys. sanitizeFieldName u (c # cs) = CHR ''_'' # c # ys"
proof -
  from isDigit_lower [OF assms]
  have l: "lowerChar c = c" "isLowerWordChar c" "c \<noteq> CHR ''_''" by auto
  obtain ys where ys:
    "stripUnderscores (collapseUnderscores (replaceNonLowerWord (toLowerCase (c # cs)))) = c # ys"
    using stripUnderscores_keep [OF l(3)] collapseUnderscores_keep [OF l(3)] l
    by (simp add: toLowerCase_def replaceNonLowerWord_def)
  show ?thesis
    unfolding sanitizeFieldName_def ys using assms by (simp add: Let_def)
qed

subsection \<open>Type inference\<close>

lemma fold_scoreValue_boolean:
  "boolean (fold scoreValue vs s) = boolean s + booleanHits vs"
  by (induction vs arbitrary: s)
     (simp_all add: booleanHits_def matchesBooleanLiteral_def scoreValue_def Let_def)

lemma fold_scoreValue_number:
  "number (fold scoreValue vs s) = number s + numberHits vs"
  by (induction vs arbitrary: s)
     (simp_all add: numberHits_def looksNumeric_def scoreValue_def Let_def)

lemmas literal_check_defs = booleanHits_def matchesBooleanLiteral_def isBooleanLiteral_def
  toLowerCase_def trim_def lowerChar_def isWhiteSpace_def char_class_defs numberHits_def
  looksNumeric_def numberIsNaN_def isStrNumericLiteral_def isStrUnsignedDecimalLiteral_def
  isNonDecimalIntegerLiteral_def dropSign_def isExponentPartOpt_def

text \<open>
  C6. Claim: whenever at least 80 percent of the values of a column sample match the
  boolean literals, \<^verbatim>\<open>detectColumnType\<close> returns boolean, whatever the date and number
  scores are. The claim as stated includes the empty sample, of which every share is
  reached: there the guard \<^verbatim>\<open>if (values.length === 0) return 'string'\<close> answers first.
\<close>

theorem detectColumnType_empty_sample:
  "4 * length ([] :: string list) \<le> 5 * booleanHits [] \<and> detectColumnType [] = TString"
  by (simp add: booleanHits_def detectColumnType_def)

text \<open>
  C6, amended: for every non-empty sample in which at least 80 percent of the values
  match the boolean literals, \<^verbatim>\<open>detectColumnType\<close> returns boolean: the boolean score is
  compared first, so the date and number scores are not consulted.
\<close>

theorem detectColumnType_boolean_first:
  assumes "values \<noteq> []" and "4 * length values \<le> 5 * booleanHits values"
  shows "detectColumnType values = TBoolean"
  using assms
  by (simp add: detectColumnType_def Let_def fold_scoreValue_boolean meetsThreshold_def)

text \<open>
  A sample of zeros and ones reaches the threshold with its boolean score and with its
  number score, and is classified as boolean.
\<close>

theorem detectColumnType_boolean_first_witness:
  "[''0'', ''1'', ''1''] \<noteq> [] \<and>
   4 * length [''0'', ''1'', ''1''] \<le> 5 * booleanHits [''0'', ''1'', ''1''] \<and>
   4 * length [''0'', ''1'', ''1''] \<le> 5 * numberHits [''0'', ''1'', ''1''] \<and>
   detectColumnType [''0'', ''1'', ''1''] = TBoolean"
  using detectColumnType_boolean_first [of "[''0'', ''1'', ''1'']"]
  by (simp add: literal_check_defs)

text \<open>
  C7. Claim: the nullable flag of a column is set exactly when some row has a missing
  or empty value for it, for inputs of any number of rows. The flag compares the number
  of values kept from the first 100 rows with the number of all rows, so for 101 rows
  that all hold the value \<open>''x''\<close> the flag is set although no value is missing.
\<close>

theorem inferColumn_nullable_beyond_sample:
  "noMissingValue (replicate 101 [(''a'', ''x'')]) ''a'' \<and>
   col_nullable (inferColumn (replicate 101 [(''a'', ''x'')]) ''a'')"
  by (simp add: noMissingValue_def inferColumn_def sampleValuesOf_def isPresent_def Let_def
      list_all_iff)

text \<open>
  What the flag computes in general: it is set when a value is missing or when there
  are more than 100 rows. Up to 100 rows it is the flag that the claim describes.
\<close>

lemma inferColumn_nullable_iff:
  "col_nullable (inferColumn rows header) \<longleftrightarrow>
     (100 < length rows \<or> \<not> noMissingValue rows header)"
proof (cases "100 < length rows")
  case True
  have "length (sampleValuesOf rows header) \<le> length (take 100 rows)"
    unfolding sampleValuesOf_def length_map by (rule order_trans [OF length_filter_le]) simp
  with True show ?thesis by (simp add: inferColumn_def Let_def)
next
  case False
  then have t: "take 100 rows = rows" by simp
  have "length (filter isPresent (map (\<lambda>row. map_of row header) rows)) < length rows
        \<longleftrightarrow> \<not> list_all (\<lambda>row. isPresent (map_of row header)) rows"
    by (induction rows) (auto simp: less_Suc_eq_le)
  with False show ?thesis
    by (simp add: inferColumn_def Let_def sampleValuesOf_def t noMissingValue_def)
qed

subsection \<open>Access control\<close>

lemmas fixture_defs = twoMemberState_def emptyState_def demoTable_def demoExternals_def
  demoRequest_def demoProject_def

text \<open>
  No member of \<^verbatim>\<open>AdhocTableScope\<close> has the value \<^verbatim>\<open>'SHARED'\<close> with which
  \<^verbatim>\<open>userCanAccessTable\<close> compares the column, so the check comes down to ownership; and it
  never reads \<^verbatim>\<open>adhoc_table_access\<close>.
\<close>

lemma scopeValue_not_upper: "scopeValue s \<noteq> ''SHARED''"
  by (cases s) simp_all

lemma userCanAccessTable_owner_only:
  "userCanAccessTable st tableUuid userUuid = userCanDeleteTable st tableUuid userUuid"
  by (simp add: userCanAccessTable_def userCanDeleteTable_def scopeValue_not_upper
      split: option.splits)

lemma userCanAccessTable_grants_irrelevant:
  "userCanAccessTable (st\<lparr>adhoc_table_access := a\<rparr>) tableUuid userUuid =
   userCanAccessTable st tableUuid userUuid"
  by (simp add: userCanAccessTable_def findLiveTable_def userCanAccessProject_def
      split: option.splits)

text \<open>
  C1. Claim: \<^verbatim>\<open>userCanAccessTable\<close> holds exactly for the creator, for a project member
  when the table is shared, and for a user with an access grant; in particular it holds
  for a second project member once the owner has granted access to a personal table.
  In the project of \<open>twoMemberState\<close> the owner \<open>''alice''\<close> grants \<open>''bob''\<close>
  access to her personal table: the grant is stored, \<open>''bob''\<close> is a project member,
  and \<^verbatim>\<open>userCanAccessTable\<close> still answers no. It also answers no for \<open>''bob''\<close> on
  the shared table of the project.
\<close>

theorem userCanAccessTable_after_grant:
  "fst (grantTableAccess demoExternals twoMemberState ''table-p'' ''bob'' ''alice'') = Inr () \<and>
   map user_uuid (adhoc_table_access
     (snd (grantTableAccess demoExternals twoMemberState ''table-p'' ''bob'' ''alice''))) =
     [''bob''] \<and>
   userCanAccessProject
     (snd (grantTableAccess demoExternals twoMemberState ''table-p'' ''bob'' ''alice''))
     ''project-1'' ''bob'' \<and>
   \<not> userCanAccessTable
     (snd (grantTableAccess demoExternals twoMemberState ''table-p'' ''bob'' ''alice''))
     ''table-p'' ''bob'' \<and>
   \<not> userCanAccessTable twoMemberState ''table-s'' ''bob''"
  by (simp add: grantTableAccess_def userCanShareTable_def userCanDeleteTable_def
      findLiveTable_def userCanAccessTable_def userCanAccessProject_def fixture_defs)

subsection \<open>Ingestion\<close>

lemma demoExternals_simps:
  "getProject demoExternals ''project-1'' = Some demoProject"
  "getUserByUuid demoExternals u = Some u"
  "getWarehouseCredentialsForProject demoExternals p = Inr \<lparr>cred_type = ''postgres''\<rparr>"
  "hasCreateTableFromData demoExternals t = True"
  "createTableFromData demoExternals n rs cs = None"
  by (simp_all add: demoExternals_def)




text \<open>
  In both versions of \<^verbatim>\<open>createFromFile\<close> the field \<^verbatim>\<open>fileName\<close> of the metadata of a
  successful ingestion is the first 255 characters of the content of the file.
\<close>

lemma createFromFile_fileName:
  assumes "createFromFile ext st projectUuid userUuid request = (Inr r, st')"
  shows "md_fileName (r_metadata r) = take 255 (req_file request)"
  using assms
  by (auto simp: createFromFile_def Let_def formatRecord_def newAdhocRow_def
      split: option.splits sum.splits if_splits prod.splits)

lemma createFromFile_index_fileName:
  assumes "createFromFile_index ext st projectUuid userUuid request = (Inr r, st')"
  shows "md_fileName (r_metadata r) = take 255 (req_file request)"
  using assms
  by (auto simp: createFromFile_index_def Let_def formatRecord_def newAdhocRow_def
      split: option.splits sum.splits if_splits prod.splits)


subsection \<open>Uploads without data rows\<close>

lemma errorName_not_EmptyInputError: "errorName e \<noteq> ''EmptyInputError''"
  by (cases e) simp_all

lemma parseFile_zero_rows:
  assumes "zeroDataRows ext request"
  shows "parseFile ext request =
     Inl (Error (if req_fileType request = CSV then ''CSV file is empty''
                 else ''Excel parsing failed: Excel sheet is empty''))"
  using assms
  by (simp add: zeroDataRows_def parseFile_def parseCSV_def parseExcel_def split: if_splits)

lemma zeroDataRows_headerOnly:
  "zeroDataRows demoExternals (demoRequest\<lparr>req_file := headerOnlyCsv\<rparr>)"
  by (simp add: zeroDataRows_def demoExternals_def demoRequest_def headerOnlyCsv_def demoCsv_def)

text \<open>
  C3. Claim: an upload with a header line and no data rows makes \<^verbatim>\<open>createFromFile\<close> fail
  with an \<^verbatim>\<open>EmptyInputError\<close>, without inserting a metadata record and without calling
  the warehouse. The sources have no such error class: for the header-only CSV file
  the thrown value is a plain \<^verbatim>\<open>Error\<close>.
\<close>

theorem createFromFile_header_only_error_class:
  "zeroDataRows demoExternals (demoRequest\<lparr>req_file := headerOnlyCsv\<rparr>) \<and>
   (case fst (createFromFile demoExternals emptyState ''project-1'' ''alice''
               (demoRequest\<lparr>req_file := headerOnlyCsv\<rparr>)) of
      Inl e \<Rightarrow> errorName e = ''Error'' \<and> errorName e \<noteq> ''EmptyInputError''
    | Inr r \<Rightarrow> False)"
proof -
  have "parseFile demoExternals (demoRequest\<lparr>req_file := headerOnlyCsv\<rparr>) =
          Inl (Error ''CSV file is empty'')"
    using parseFile_zero_rows [OF zeroDataRows_headerOnly] by (simp add: demoRequest_def)
  then show ?thesis
    using zeroDataRows_headerOnly by (simp add: createFromFile_def demoExternals_simps)
qed

text \<open>
  C3, amended: an upload without data rows makes \<^verbatim>\<open>createFromFile\<close> fail with
  \<^verbatim>\<open>NotFoundError\<close> when the project is unknown and otherwise with a plain \<^verbatim>\<open>Error\<close>
  whose message is that of the parser (\<open>''CSV file is empty''\<close>, or
  \<open>''Excel parsing failed: Excel sheet is empty''\<close> for a spreadsheet). The state that
  comes back is the state before the call: no metadata record has been inserted and the
  warehouse has not been called.
\<close>

theorem createFromFile_zero_rows:
  assumes "zeroDataRows ext request"
  shows "createFromFile ext st projectUuid userUuid request =
     (Inl (case getProject ext projectUuid of
             None \<Rightarrow> NotFoundError (''Project '' @ projectUuid @ '' not found'')
           | Some proj \<Rightarrow>
               Error (if req_fileType request = CSV then ''CSV file is empty''
                      else ''Excel parsing failed: Excel sheet is empty'')),
      st)"
  by (simp add: createFromFile_def parseFile_zero_rows [OF assms] split: option.splits)

theorem createFromFile_zero_rows_witness:
  "zeroDataRows demoExternals (demoRequest\<lparr>req_file := headerOnlyCsv\<rparr>) \<and>
   createFromFile demoExternals emptyState ''project-1'' ''alice''
     (demoRequest\<lparr>req_file := headerOnlyCsv\<rparr>) =
     (Inl (Error ''CSV file is empty''), emptyState) \<and>
   adhoc_tables emptyState = [] \<and> warehouse_calls emptyState = []"
  using createFromFile_zero_rows [OF zeroDataRows_headerOnly, of emptyState "''project-1''" "''alice''"]
    zeroDataRows_headerOnly
  by (simp add: demoExternals_simps demoRequest_def emptyState_def)

subsection \<open>Explore generation\<close>

lemmas sanitizeFieldName_defs = sanitizeFieldName_def stripUnderscores_def
  replaceNonLowerWord_def toLowerCase_def lowerChar_def char_class_defs

text \<open>
  C10. Claim: for every list of columns \<^verbatim>\<open>generateExplore\<close> yields exactly one
  dimension per column, keyed by the sanitized column name, and one row-count metric.
  The dimensions are collected in an object keyed by the sanitized name, so a column
  whose name sanitizes to a key that is already there replaces the earlier dimension:
  the two columns \<open>''Name''\<close> and \<open>''name''\<close> give one dimension, that of the second.
\<close>

theorem generateExplore_colliding_columns:
  "length nameColumns = 2 \<and>
   map fst (exploreDimensions
     (generateExplore (uuidv4 demoExternals) ''table-1'' ''adhoc_t'' nameColumns ''postgres'')) =
     [''name''] \<and>
   map (dim_label \<circ> snd) (exploreDimensions
     (generateExplore (uuidv4 demoExternals) ''table-1'' ''adhoc_t'' nameColumns ''postgres'')) =
     [''name'']"
  by (simp add: nameColumns_def exploreDimensions_def generateExplore_def generateDimensions_def
      makeDimension_def enumerate_eq_zip sanitizeFieldName_defs Let_def upt_rec)

text \<open>
  The metric part of the claim holds for every input, and so does the dimension part
  when the sanitized names of the columns are pairwise distinct; the three columns of
  the end-to-end scenario give three dimensions and the row-count metric.
\<close>

lemma exploreMetrics_generateExplore:
  "map (\<lambda>(k, m). (k, met_name m, met_type m))
     (exploreMetrics (generateExplore uuids adhocTableUuid tableName columns warehouseType)) =
   [(''row_count'', ''row_count'', COUNT)]"
  by (simp add: exploreMetrics_def generateExplore_def generateMetrics_def Let_def)

lemma generateDimensions_keys_aux:
  "distinct (map fst acc @ dimensionKeys uuids n columns) \<Longrightarrow>
   map fst (foldl (\<lambda>acc (i, column).
              (let (sanitizedName, dimension) = makeDimension (uuids i) tableName column
               in AList.update sanitizedName dimension acc))
           acc (enumerate n columns)) = map fst acc @ dimensionKeys uuids n columns"
proof (induction columns arbitrary: acc n)
  case Nil
  then show ?case by (simp add: dimensionKeys_def)
next
  case (Cons c cs)
  let ?k = "sanitizeFieldName (uuids n) (cd_name c)"
  from Cons.prems have notin: "?k \<notin> set (map fst acc)"
    by (auto simp: dimensionKeys_def)
  have keys: "dimensionKeys uuids n (c # cs) = ?k # dimensionKeys uuids (Suc n) cs"
    by (simp add: dimensionKeys_def)
  have upd: "map fst (AList.update ?k d acc) = map fst acc @ [?k]" for d
    using notin by (simp add: update_keys)
  show ?case
    using Cons.IH [of "AList.update ?k (snd (makeDimension (uuids n) tableName c)) acc" "Suc n"]
      Cons.prems
    by (simp add: keys upd makeDimension_def Let_def)
qed

lemma generateExplore_dimension_keys:
  assumes "distinct (dimensionKeys uuids 0 columns)"
  shows "map fst (exploreDimensions (generateExplore uuids t w columns wt)) =
         dimensionKeys uuids 0 columns"
  using generateDimensions_keys_aux [of "[]" uuids 0 columns w] assms
  by (simp add: exploreDimensions_def generateExplore_def generateDimensions_def Let_def)

lemma generateExplore_one_dimension_per_column:
  assumes "distinct (dimensionKeys uuids 0 columns)"
  shows "length (exploreDimensions (generateExplore uuids t w columns wt)) = length columns"
proof -
  have "length (map fst (exploreDimensions (generateExplore uuids t w columns wt))) =
        length (dimensionKeys uuids 0 columns)"
    using generateExplore_dimension_keys [OF assms] by simp
  then show ?thesis by (simp add: dimensionKeys_def)
qed

lemma generateExplore_demoColumns:
  "map (\<lambda>(k, d). (k, dim_type d))
     (exploreDimensions (generateExplore uuids t w demoColumns wt)) =
     [(''id'', DimNUMBER), (''active'', DimBOOLEAN), (''signup_date'', DimDATE)] \<and>
   map (\<lambda>(k, m). (k, met_type m))
     (exploreMetrics (generateExplore uuids t w demoColumns wt)) =
     [(''row_count'', COUNT)]"
  by (simp add: demoColumns_def exploreDimensions_def exploreMetrics_def generateExplore_def
      generateDimensions_def generateMetrics_def makeDimension_def
      mapColumnTypeToDimensionType_def enumerate_eq_zip sanitizeFieldName_defs Let_def upt_rec)

text \<open>The inferred schema of the end-to-end scenario.\<close>

lemma inferColumnTypes_demo:
  "map (\<lambda>c. (col_name c, col_type c, col_nullable c))
     (inferColumnTypes demoRows (firstRowKeys demoRows)) =
     [(''id'', TNumber, False), (''active'', TBoolean, False), (''signup_date'', TDate, False)]"
  by (simp add: demoRows_def firstRowKeys_def objectKeys_def inferColumnTypes_def inferColumn_def
      sampleValuesOf_def isPresent_def detectColumnType_def scoreValue_def meetsThreshold_def
      Let_def isBooleanLiteral_def toLowerCase_def trim_def lowerChar_def isWhiteSpace_def
      char_class_defs numberIsNaN_def isStrNumericLiteral_def isStrUnsignedDecimalLiteral_def
      isNonDecimalIntegerLiteral_def dropSign_def isExponentPartOpt_def isValidDate_def
      matchDatePattern_def digitsThen_def digitsAtLeast_def)

subsection \<open>Failures of Explore registration and catalog indexing\<close>
















subsection \<open>Soft delete\<close>


















end
